theory Spec2Isabelle
  imports Complex_Main "HOL-Library.Sublist"
begin

section \<open>Python values used by the FAQ service\<close>

text \<open>
  A Python \<open>str\<close> is a sequence of Unicode code points, and \<open>len\<close> counts code points.
  A code point is a natural number here; the ASCII literals of the source are injected
  with \<open>lit\<close>.
\<close>

type_synonym pystr = "nat list"

definition lit :: "string \<Rightarrow> pystr" where
  "lit s = map of_char s"

definition len :: "pystr \<Rightarrow> int" where
  "len s = int (length s)"

text \<open>
  \<open>str.isspace\<close> on one code point: the code points CPython classifies as whitespace
  (bidirectional class WS, B or S, or general category Zs).
\<close>

definition isspace :: "nat \<Rightarrow> bool" where
  "isspace c \<longleftrightarrow>
     (9 \<le> c \<and> c \<le> 13) \<or> (28 \<le> c \<and> c \<le> 32) \<or> c = 133 \<or> c = 160 \<or> c = 5760 \<or>
     (8192 \<le> c \<and> c \<le> 8202) \<or> c = 8232 \<or> c = 8233 \<or> c = 8239 \<or> c = 8287 \<or> c = 12288"

text \<open>\<open>s.strip()\<close>: drop the whitespace at both ends.\<close>

definition strip :: "pystr \<Rightarrow> pystr" where
  "strip s = rev (dropWhile isspace (rev (dropWhile isspace s)))"

text \<open>\<open>str(n)\<close> for an integer, as an f-string renders it.\<close>

function str_nat :: "nat \<Rightarrow> pystr" where
  "str_nat n = (if n < 10 then [48 + n] else str_nat (n div 10) @ [48 + n mod 10])"
  by pat_completeness auto
termination
  by (relation "measure id") auto

declare str_nat.simps [simp del]

definition str_int :: "int \<Rightarrow> pystr" where
  "str_int i = (if i < 0 then 45 # str_nat (nat (- i)) else str_nat (nat i))"

text \<open>\<open>sub in s\<close> on strings.\<close>

definition contains :: "pystr \<Rightarrow> pystr \<Rightarrow> bool" where
  "contains sub s = sublist sub s"

text \<open>
  The value a JSON document parses to: \<open>None\<close>, \<open>bool\<close>, \<open>int\<close>, \<open>float\<close>, \<open>str\<close>,
  \<open>list\<close> or \<open>dict\<close>. A \<open>dict\<close> is kept as its list of items; \<open>dict_get\<close> below
  looks a key up in it.
\<close>

datatype pyfloat = Finite rat | Infinity bool | NaN

datatype json =
    JNull
  | JBool bool
  | JInt int
  | JFloat pyfloat
  | JStr pystr
  | JArr "json list"
  | JObj "(pystr \<times> json) list"

text \<open>An exception: the name of its class and \<open>str(e)\<close>.\<close>

datatype exc = Exc (exc_class: string) (exc_str: pystr)

text \<open>Truth value of a parsed JSON value, as \<open>or\<close> tests it.\<close>

fun truthy :: "json \<Rightarrow> bool" where
  "truthy JNull = False"
| "truthy (JBool b) = b"
| "truthy (JInt i) = (i \<noteq> 0)"
| "truthy (JFloat (Finite q)) = (q \<noteq> 0)"
| "truthy (JFloat (Infinity _)) = True"
| "truthy (JFloat NaN) = True"
| "truthy (JStr s) = (s \<noteq> [])"
| "truthy (JArr xs) = (xs \<noteq> [])"
| "truthy (JObj kvs) = (kvs \<noteq> [])"

fun type_name :: "json \<Rightarrow> string" where
  "type_name JNull = ''NoneType''"
| "type_name (JBool _) = ''bool''"
| "type_name (JInt _) = ''int''"
| "type_name (JFloat _) = ''float''"
| "type_name (JStr _) = ''str''"
| "type_name (JArr _) = ''list''"
| "type_name (JObj _) = ''dict''"

text \<open>The \<open>AttributeError\<close> of \<open>v.attr\<close> on a value that has no such attribute.\<close>

definition attribute_error :: "json \<Rightarrow> string \<Rightarrow> exc" where
  "attribute_error v attr =
     Exc ''AttributeError''
       (lit ([CHR 0x27] @ type_name v @ [CHR 0x27] @ '' object has no attribute '' @
             [CHR 0x27] @ attr @ [CHR 0x27]))"

text \<open>\<open>a or b\<close>.\<close>

definition py_or :: "json \<Rightarrow> json \<Rightarrow> json" where
  "py_or a b = (if truthy a then a else b)"

text \<open>\<open>data.get(key)\<close>: only a \<open>dict\<close> has \<open>get\<close>; a missing key gives \<open>None\<close>.\<close>

definition dict_get :: "json \<Rightarrow> pystr \<Rightarrow> exc + json" where
  "dict_get data key =
     (case data of
        JObj kvs \<Rightarrow> Inr (case map_of kvs key of None \<Rightarrow> JNull | Some v \<Rightarrow> v)
      | _ \<Rightarrow> Inl (attribute_error data ''get''))"

text \<open>\<open>v.strip()\<close>: only a \<open>str\<close> has \<open>strip\<close>.\<close>

definition str_strip :: "json \<Rightarrow> exc + pystr" where
  "str_strip v = (case v of JStr s \<Rightarrow> Inr (strip s) | _ \<Rightarrow> Inl (attribute_error v ''strip''))"

section \<open>The application: \<open>app.py\<close>\<close>

subsection \<open>Limits and fixed texts\<close>

definition TEXT_MAX_LENGTH :: int where "TEXT_MAX_LENGTH = 5000"
definition QUESTION_MAX_LENGTH :: int where "QUESTION_MAX_LENGTH = 300"
definition TEXT_MIN_LENGTH :: int where "TEXT_MIN_LENGTH = 20"
definition QUESTION_MIN_LENGTH :: int where "QUESTION_MIN_LENGTH = 3"

definition SYSTEM_PROMPT :: pystr where
  "SYSTEM_PROMPT =
     lit ''You are an AI assistant designed to help students and staff at Metropolia UAS.'' @ [10] @
     lit ''Your role is to help with course materials, lecture notes, and educational questions.'' @ [10] @
     lit ''Provide clear, concise, and helpful answers. If the question is outside the scope of the provided text, say so.'' @ [10] @
     lit ''Keep responses focused and structured.''"

definition msg_text_empty :: pystr where
  "msg_text_empty = lit ''Please provide lecture text.''"

definition msg_question_empty :: pystr where
  "msg_question_empty = lit ''Please enter a question.''"

definition msg_text_short :: pystr where
  "msg_text_short = lit ''Lecture text is too short. Please provide more content.''"

definition msg_question_short :: pystr where
  "msg_question_short = lit ''Question is too short. Please be more specific.''"

definition msg_text_long :: pystr where
  "msg_text_long =
     lit ''Lecture text exceeds maximum length ('' @ str_int TEXT_MAX_LENGTH @
     lit '' characters). Please shorten it.''"

definition msg_question_long :: pystr where
  "msg_question_long =
     lit ''Question exceeds maximum length ('' @ str_int QUESTION_MAX_LENGTH @
     lit '' characters). Please shorten it.''"

definition msg_generic :: pystr where
  "msg_generic = lit ''An error occurred. Please try again later.''"

text \<open>The f-string of line 88.\<close>

definition prompt_of :: "pystr \<Rightarrow> pystr \<Rightarrow> pystr" where
  "prompt_of text question =
     lit ''Based on the following course material, please answer the question.'' @ [10, 10] @
     lit ''Course Material:'' @ [10] @ text @ [10, 10] @
     lit ''Question: '' @ question @ [10, 10] @
     lit ''Provide a clear and concise answer.''"

subsection \<open>The outside world\<close>

text \<open>
  The keyword arguments of \<open>client.chat.completions.create\<close>, and the part of its result
  that the adapter reads: \<open>resp.choices[0].message.content\<close>, which the API leaves
  \<open>None\<close> when the model produced no text.
\<close>

record api_request =
  model :: pystr
  messages :: "(pystr \<times> pystr) list"
  max_tokens :: int
  temperature :: rat

datatype message = Message (content: "pystr option")
datatype choice = Choice (message: message)
datatype completion = Completion (choices: "choice list")

text \<open>
  What the handler cannot see into. \<open>client\<close> is the upstream API: it raises or returns
  a completion. \<open>on_json_loading_failed\<close> is what the web framework does when the
  request body does not parse as JSON: it raises the given exception (Flask raises
  \<open>BadRequest\<close>), or, when there is none, \<open>request.json\<close> is \<open>None\<close>.
\<close>

record env =
  client :: "api_request \<Rightarrow> exc + completion"
  on_json_loading_failed :: "exc option"

text \<open>The effects of a request: the outbound calls made and the lines printed.\<close>

record world =
  calls :: "api_request list"
  stdout :: "pystr list"

datatype http_body = Invalid_JSON | Valid_JSON json

definition request_json :: "env \<Rightarrow> http_body \<Rightarrow> exc + json" where
  "request_json e b =
     (case b of
        Valid_JSON v \<Rightarrow> Inr v
      | Invalid_JSON \<Rightarrow> (case on_json_loading_failed e of Some x \<Rightarrow> Inl x | None \<Rightarrow> Inr JNull))"

record response =
  status :: nat
  body :: json

text \<open>\<open>jsonify({key: value}), status\<close>.\<close>

definition jsonify :: "string \<Rightarrow> pystr \<Rightarrow> nat \<Rightarrow> response" where
  "jsonify key v st = \<lparr>status = st, body = JObj [(lit key, JStr v)]\<rparr>"

subsection \<open>\<open>ask_model\<close>\<close>

definition chat_request :: "pystr \<Rightarrow> int \<Rightarrow> api_request" where
  "chat_request prompt mt =
     \<lparr>model = lit ''gpt-4o-mini'',
      messages = [(lit ''system'', SYSTEM_PROMPT), (lit ''user'', prompt)],
      max_tokens = mt,
      temperature = 2 / 10\<rparr>"

text \<open>The value of \<open>resp.choices[0].message.content.strip()\<close>.\<close>

definition answer_of :: "completion \<Rightarrow> exc + pystr" where
  "answer_of resp =
     (case choices resp of
        [] \<Rightarrow> Inl (Exc ''IndexError'' (lit ''list index out of range''))
      | c # _ \<Rightarrow>
          (case content (message c) of
             None \<Rightarrow> Inl (attribute_error JNull ''strip'')
           | Some s \<Rightarrow> Inr (strip s)))"

definition default_max_tokens :: int where
  "default_max_tokens = 300"

text \<open>
  The \<open>try\<close> block makes the call and reads the answer; the \<open>except\<close> clause turns
  whatever was raised into \<open>Exception(f"API Error: {str(e)}")\<close>.
\<close>

definition ask_model :: "env \<Rightarrow> pystr \<Rightarrow> int \<Rightarrow> world \<Rightarrow> (exc + pystr) \<times> world" where
  "ask_model e prompt mt w =
     (let rq = chat_request prompt mt;
          w' = w\<lparr>calls := calls w @ [rq]\<rparr>;
          r = (case client e rq of Inl x \<Rightarrow> Inl x | Inr resp \<Rightarrow> answer_of resp)
      in (case r of
            Inl x \<Rightarrow> Inl (Exc ''Exception'' (lit ''API Error: '' @ exc_str x))
          | Inr a \<Rightarrow> Inr a,
          w'))"

subsection \<open>\<open>ask\<close> and \<open>health\<close>\<close>

text \<open>\<open>(data.get(key) or "").strip()\<close>.\<close>

definition field :: "json \<Rightarrow> string \<Rightarrow> exc + pystr" where
  "field data key =
     (case dict_get data (lit key) of
        Inl x \<Rightarrow> Inl x
      | Inr v \<Rightarrow> str_strip (py_or v (JStr [])))"

text \<open>Lines 71 and 72: both fields, \<open>text\<close> first.\<close>

definition normalize :: "json \<Rightarrow> exc + (pystr \<times> pystr)" where
  "normalize data =
     (case field data ''text'' of
        Inl x \<Rightarrow> Inl x
      | Inr text \<Rightarrow>
          (case field data ''question'' of
             Inl x \<Rightarrow> Inl x
           | Inr question \<Rightarrow> Inr (text, question)))"

text \<open>Lines 75 to 91, with \<open>text\<close> and \<open>question\<close> already normalised.\<close>

definition answer_request :: "env \<Rightarrow> pystr \<Rightarrow> pystr \<Rightarrow> world \<Rightarrow> (exc + response) \<times> world" where
  "answer_request e text question w =
     (if text = [] then (Inr (jsonify ''error'' msg_text_empty 400), w)
      else if question = [] then (Inr (jsonify ''error'' msg_question_empty 400), w)
      else if len text < TEXT_MIN_LENGTH then (Inr (jsonify ''error'' msg_text_short 400), w)
      else if len question < QUESTION_MIN_LENGTH then
        (Inr (jsonify ''error'' msg_question_short 400), w)
      else if len text > TEXT_MAX_LENGTH then (Inr (jsonify ''error'' msg_text_long 400), w)
      else if len question > QUESTION_MAX_LENGTH then
        (Inr (jsonify ''error'' msg_question_long 400), w)
      else
        (case ask_model e (prompt_of text question) default_max_tokens w of
           (Inl x, w') \<Rightarrow> (Inl x, w')
         | (Inr answer, w') \<Rightarrow> (Inr (jsonify ''answer'' answer 200), w')))"

text \<open>The body of the \<open>try\<close> block of \<open>ask\<close>: an exception raised in it is \<open>Inl\<close>.\<close>

definition ask_try :: "env \<Rightarrow> http_body \<Rightarrow> world \<Rightarrow> (exc + response) \<times> world" where
  "ask_try e b w =
     (case request_json e b of
        Inl x \<Rightarrow> (Inl x, w)
      | Inr data \<Rightarrow>
          (case normalize data of
             Inl x \<Rightarrow> (Inl x, w)
           | Inr (text, question) \<Rightarrow> answer_request e text question w))"

text \<open>\<open>ask\<close>: the \<open>except Exception\<close> clause prints the exception and answers 500.\<close>

definition ask :: "env \<Rightarrow> http_body \<Rightarrow> world \<Rightarrow> response \<times> world" where
  "ask e b w =
     (case ask_try e b w of
        (Inl x, w') \<Rightarrow>
          (jsonify ''error'' msg_generic 500,
           w'\<lparr>stdout := stdout w' @ [lit ''Error in /ask endpoint: '' @ exc_str x]\<rparr>)
      | (Inr r, w') \<Rightarrow> (r, w'))"

definition health :: "env \<Rightarrow> world \<Rightarrow> response \<times> world" where
  "health e w = (jsonify ''status'' (lit ''ok'') 200, w)"

section \<open>The specification's reading of the handler\<close>

text \<open>
  The six checks as the specification lists them, each with the message it answers,
  and the first check of such a list that fails. The handler itself is \<open>answer_request\<close>
  above; these two definitions are what it is compared with.
\<close>

definition spec_checks :: "pystr \<Rightarrow> pystr \<Rightarrow> (bool \<times> pystr) list" where
  "spec_checks text question =
     [(text = [], msg_text_empty),
      (question = [], msg_question_empty),
      (length text < 20, msg_text_short),
      (length question < 3, msg_question_short),
      (length text > 5000, msg_text_long),
      (length question > 300, msg_question_long)]"

fun first_failure :: "(bool \<times> pystr) list \<Rightarrow> pystr option" where
  "first_failure [] = None"
| "first_failure ((failed, m) # cs) = (if failed then Some m else first_failure cs)"

text \<open>
  The number of bytes of the UTF-8 encoding of a string, which is what \<open>len\<close> would
  count on encoded bytes.
\<close>

definition utf8_bytes :: "nat \<Rightarrow> nat" where
  "utf8_bytes c = (if c < 128 then 1 else if c < 2048 then 2 else if c < 65536 then 3 else 4)"

definition utf8_length :: "pystr \<Rightarrow> nat" where
  "utf8_length s = sum_list (map utf8_bytes s)"

text \<open>Concrete surroundings for the examples: an upstream that is down, one that answers.\<close>

definition upstream_down :: env where
  "upstream_down =
     \<lparr>client = (\<lambda>rq. Inl (Exc ''APIConnectionError'' (lit ''Connection error.''))),
      on_json_loading_failed = Some (Exc ''BadRequest'' (lit ''400 Bad Request''))\<rparr>"

definition upstream_says :: "pystr option \<Rightarrow> env" where
  "upstream_says out =
     \<lparr>client = (\<lambda>rq. Inr (Completion [Choice (Message out)])),
      on_json_loading_failed = None\<rparr>"

definition quiet :: world where
  "quiet = \<lparr>calls = [], stdout = []\<rparr>"

definition form :: "json \<Rightarrow> json \<Rightarrow> json" where
  "form t q = JObj [(lit ''text'', t), (lit ''question'', q)]"

definition sample_text :: pystr where
  "sample_text = lit ''Valid lecture content for testing.''"

definition sample_question :: pystr where
  "sample_question = lit ''What is this?''"

definition sample_form :: json where
  "sample_form = form (JStr sample_text) (JStr sample_question)"

section \<open>Strings\<close>

lemma lit_eq_iff: "lit a = lit b \<longleftrightarrow> a = b"
  unfolding lit_def by (simp add: inj_map_eq_map inj_on_def)

lemma str_int_TEXT_MAX_LENGTH: "str_int TEXT_MAX_LENGTH = lit ''5000''"
  by (simp add: str_int_def TEXT_MAX_LENGTH_def lit_def str_nat.simps)

lemma str_int_QUESTION_MAX_LENGTH: "str_int QUESTION_MAX_LENGTH = lit ''300''"
  by (simp add: str_int_def QUESTION_MAX_LENGTH_def lit_def str_nat.simps)

lemma strip_Nil: "strip [] = []"
  by (simp add: strip_def)

lemma dropWhile_all: "\<forall>c\<in>set p. P c \<Longrightarrow> dropWhile P (p @ s) = dropWhile P s"
  by (induction p) auto

lemma strip_pad:
  assumes p: "\<forall>c\<in>set p. isspace c" and q: "\<forall>c\<in>set q. isspace c"
  shows "strip (p @ s @ q) = strip s"
proof -
  have front: "dropWhile isspace (p @ s @ q) = dropWhile isspace (s @ q)"
    using p by (rule dropWhile_all)
  show ?thesis
  proof (cases "\<forall>c\<in>set s. isspace c")
    case True
    then have a: "dropWhile isspace (s @ q) = []" and b: "dropWhile isspace s = []"
      using q by (simp_all add: dropWhile_eq_Nil_conv)
    show ?thesis
      unfolding strip_def front a b by simp
  next
    case False
    then have ne: "dropWhile isspace s \<noteq> []"
      by auto
    from False obtain c where "c \<in> set s" "\<not> isspace c"
      by blast
    then have "dropWhile isspace (s @ q) = dropWhile isspace s @ q"
      by (rule dropWhile_append1)
    moreover have "dropWhile isspace (rev q @ rev (dropWhile isspace s))
                 = dropWhile isspace (rev (dropWhile isspace s))"
      using q by (intro dropWhile_all) simp
    ultimately show ?thesis
      by (simp add: strip_def front)
  qed
qed

lemma strip_unchanged:
  assumes "s \<noteq> []" "\<not> isspace (hd s)" "\<not> isspace (last s)"
  shows "strip s = s"
proof -
  have "dropWhile isspace s = s"
    using assms(1,2) by (cases s) auto
  moreover have "dropWhile isspace (rev s) = rev s"
    using assms(1,3) by (cases "rev s") (auto simp: last_rev hd_rev)
  ultimately show ?thesis
    by (simp add: strip_def)
qed

lemma strip_replicate: "\<not> isspace c \<Longrightarrow> strip (replicate n c) = replicate n c"
  by (cases n) (simp_all add: strip_Nil strip_unchanged)

lemma strip_nonempty_iff: "strip s \<noteq> [] \<longleftrightarrow> (\<exists>c\<in>set s. \<not> isspace c)"
proof
  assume ne: "strip s \<noteq> []"
  have "strip s = []" if a: "dropWhile isspace s = []"
    unfolding strip_def a by simp
  with ne have "dropWhile isspace s \<noteq> []"
    by blast
  then show "\<exists>c\<in>set s. \<not> isspace c"
    using dropWhile_eq_Nil_conv [of isspace s] by blast
next
  assume "\<exists>c\<in>set s. \<not> isspace c"
  then have ne: "dropWhile isspace s \<noteq> []"
    using dropWhile_eq_Nil_conv [of isspace s] by blast
  then have "\<not> isspace (hd (dropWhile isspace s))"
    by (rule hd_dropWhile)
  moreover have "hd (dropWhile isspace s) \<in> set (rev (dropWhile isspace s))"
    using hd_in_set [OF ne] by simp
  ultimately have "\<not> (\<forall>c\<in>set (rev (dropWhile isspace s)). isspace c)"
    by blast
  then have "dropWhile isspace (rev (dropWhile isspace s)) \<noteq> []"
    using dropWhile_eq_Nil_conv [of isspace "rev (dropWhile isspace s)"] by blast
  then show "strip s \<noteq> []"
    unfolding strip_def by simp
qed

section \<open>The handler, step by step\<close>

lemma ask_raised:
  "ask_try e b w = (Inl x, w') \<Longrightarrow>
   ask e b w = (jsonify ''error'' msg_generic 500,
                w'\<lparr>stdout := stdout w' @ [lit ''Error in /ask endpoint: '' @ exc_str x]\<rparr>)"
  by (simp add: ask_def)

lemma ask_returned: "ask_try e b w = (Inr r, w') \<Longrightarrow> ask e b w = (r, w')"
  by (simp add: ask_def)

lemma ask_try_normalized:
  "normalize data = Inr (text, question) \<Longrightarrow>
   ask_try e (Valid_JSON data) w = answer_request e text question w"
  by (simp add: ask_try_def request_json_def)

lemma ask_try_not_normalized:
  "normalize data = Inl x \<Longrightarrow> ask_try e (Valid_JSON data) w = (Inl x, w)"
  by (simp add: ask_try_def request_json_def)

lemma ask_model_world:
  "snd (ask_model e p mt w) = w\<lparr>calls := calls w @ [chat_request p mt]\<rparr>"
  by (simp add: ask_model_def Let_def)

lemma answer_request_accepted:
  assumes "20 \<le> length text" "length text \<le> 5000" "3 \<le> length question" "length question \<le> 300"
  shows "answer_request e text question w =
     (case fst (ask_model e (prompt_of text question) default_max_tokens w) of
        Inl x \<Rightarrow> (Inl x, w\<lparr>calls := calls w @ [chat_request (prompt_of text question) default_max_tokens]\<rparr>)
      | Inr a \<Rightarrow> (Inr (jsonify ''answer'' a 200), w\<lparr>calls := calls w @ [chat_request (prompt_of text question) default_max_tokens]\<rparr>))"
proof -
  have "text \<noteq> []" "question \<noteq> []"
    using assms by auto
  moreover have "\<not> len text < TEXT_MIN_LENGTH" "\<not> len question < QUESTION_MIN_LENGTH"
    "\<not> len text > TEXT_MAX_LENGTH" "\<not> len question > QUESTION_MAX_LENGTH"
    using assms
    by (simp_all add: len_def TEXT_MIN_LENGTH_def QUESTION_MIN_LENGTH_def TEXT_MAX_LENGTH_def
        QUESTION_MAX_LENGTH_def)
  ultimately show ?thesis
    using ask_model_world [of e "prompt_of text question" default_max_tokens w]
    by (cases "ask_model e (prompt_of text question) default_max_tokens w")
       (simp add: answer_request_def split: sum.splits)
qed


lemma ask_model_pair:
  "ask_model e p mt w = (fst (ask_model e p mt w), w\<lparr>calls := calls w @ [chat_request p mt]\<rparr>)"
  using ask_model_world [of e p mt w] by (simp add: prod_eq_iff)

lemma answer_request_rejected:
  assumes "t = [] \<or> q = [] \<or> len t < TEXT_MIN_LENGTH \<or> len q < QUESTION_MIN_LENGTH \<or>
           len t > TEXT_MAX_LENGTH \<or> len q > QUESTION_MAX_LENGTH"
  shows "\<exists>m. answer_request e t q w = (Inr (jsonify ''error'' m 400), w)"
  using assms unfolding answer_request_def by (auto split: if_splits)

lemma answer_request_passed:
  assumes "\<not> (t = [] \<or> q = [] \<or> len t < TEXT_MIN_LENGTH \<or> len q < QUESTION_MIN_LENGTH \<or>
           len t > TEXT_MAX_LENGTH \<or> len q > QUESTION_MAX_LENGTH)"
  shows "answer_request e t q w =
     (case fst (ask_model e (prompt_of t q) default_max_tokens w) of
        Inl x \<Rightarrow> (Inl x, w\<lparr>calls := calls w @ [chat_request (prompt_of t q) default_max_tokens]\<rparr>)
      | Inr a \<Rightarrow> (Inr (jsonify ''answer'' a 200),
                  w\<lparr>calls := calls w @ [chat_request (prompt_of t q) default_max_tokens]\<rparr>))"
proof -
  define r where "r = fst (ask_model e (prompt_of t q) default_max_tokens w)"
  then have "ask_model e (prompt_of t q) default_max_tokens w =
      (r, w\<lparr>calls := calls w @ [chat_request (prompt_of t q) default_max_tokens]\<rparr>)"
    using ask_model_pair [of e "prompt_of t q" default_max_tokens w] by simp
  then show ?thesis
    using assms r_def [symmetric] by (cases r) (simp_all add: answer_request_def)
qed

lemma answer_request_outcomes:
  "(\<exists>m. answer_request e t q w = (Inr (jsonify ''error'' m 400), w)) \<or>
   (\<exists>x rq. answer_request e t q w = (Inl x, w\<lparr>calls := calls w @ [rq]\<rparr>)) \<or>
   (\<exists>a rq. answer_request e t q w =
      (Inr (jsonify ''answer'' a 200), w\<lparr>calls := calls w @ [rq]\<rparr>))"
proof (cases "t = [] \<or> q = [] \<or> len t < TEXT_MIN_LENGTH \<or> len q < QUESTION_MIN_LENGTH \<or>
           len t > TEXT_MAX_LENGTH \<or> len q > QUESTION_MAX_LENGTH")
  case True
  then show ?thesis
    using answer_request_rejected [of t q e w] by blast
next
  case False
  then show ?thesis
    using answer_request_passed [of t q e w]
    by (cases "fst (ask_model e (prompt_of t q) default_max_tokens w)") auto
qed

lemma ask_try_outcomes:
  "(\<exists>m. ask_try e b w = (Inr (jsonify ''error'' m 400), w)) \<or>
   (\<exists>x. ask_try e b w = (Inl x, w)) \<or>
   (\<exists>x rq. ask_try e b w = (Inl x, w\<lparr>calls := calls w @ [rq]\<rparr>)) \<or>
   (\<exists>a rq. ask_try e b w = (Inr (jsonify ''answer'' a 200), w\<lparr>calls := calls w @ [rq]\<rparr>))"
proof (cases "request_json e b")
  case (Inl x)
  then show ?thesis
    by (simp add: ask_try_def)
next
  case data: (Inr data)
  show ?thesis
  proof (cases "normalize data")
    case (Inl x)
    with data show ?thesis
      by (simp add: ask_try_def)
  next
    case (Inr p)
    obtain t q where "p = (t, q)"
      by (cases p)
    with data Inr have "ask_try e b w = answer_request e t q w"
      by (simp add: ask_try_def)
    then show ?thesis
      using answer_request_outcomes [of e t q w] by auto
  qed
qed

lemma keys_differ: "lit ''text'' \<noteq> lit ''question''" "lit ''question'' \<noteq> lit ''text''"
  by (simp_all add: lit_eq_iff)

lemma field_form_text: "field (form a b) ''text'' = str_strip (py_or a (JStr []))"
  by (simp add: field_def dict_get_def form_def)

lemma field_form_question: "field (form a b) ''question'' = str_strip (py_or b (JStr []))"
  by (simp add: field_def dict_get_def form_def keys_differ)

lemma normalize_form_strings:
  "normalize (form (JStr a) (JStr b)) = Inr (strip a, strip b)"
  by (simp add: normalize_def field_form_text field_form_question py_or_def str_strip_def strip_Nil)

lemma ask_empty_form:
  "fst (ask upstream_down (Valid_JSON (form (JStr []) (JStr []))) quiet) =
     jsonify ''error'' msg_text_empty 400"
  by (simp add: ask_def ask_try_normalized [OF normalize_form_strings] strip_Nil
      answer_request_def)

lemma ask_model_result:
  "fst (ask_model e p mt w) =
     (case client e (chat_request p mt) of
        Inl y \<Rightarrow> Inl (Exc ''Exception'' (lit ''API Error: '' @ exc_str y))
      | Inr resp \<Rightarrow>
          (case answer_of resp of
             Inl y \<Rightarrow> Inl (Exc ''Exception'' (lit ''API Error: '' @ exc_str y))
           | Inr a \<Rightarrow> Inr a))"
  by (simp add: ask_model_def Let_def split: sum.splits)

lemma ask_accepted:
  assumes "normalize data = Inr (t, q)"
    and "20 \<le> length t" "length t \<le> 5000" "3 \<le> length q" "length q \<le> 300"
  shows "ask e (Valid_JSON data) w =
     (case fst (ask_model e (prompt_of t q) default_max_tokens w) of
        Inl x \<Rightarrow>
          (jsonify ''error'' msg_generic 500,
           w\<lparr>calls := calls w @ [chat_request (prompt_of t q) default_max_tokens],
             stdout := stdout w @ [lit ''Error in /ask endpoint: '' @ exc_str x]\<rparr>)
      | Inr a \<Rightarrow>
          (jsonify ''answer'' a 200,
           w\<lparr>calls := calls w @ [chat_request (prompt_of t q) default_max_tokens]\<rparr>))"
  using assms(2-)
  by (simp add: ask_def ask_try_normalized [OF assms(1)] answer_request_accepted
      split: sum.splits)

lemma api_error_not_in_generic:
  "\<not> contains (lit ''API Error: '' @ m) msg_generic"
proof
  assume "contains (lit ''API Error: '' @ m) msg_generic"
  then have "sublist (lit ''API Error: '') msg_generic"
    unfolding contains_def sublist_def by (metis append.assoc)
  then show False
    by (simp add: msg_generic_def lit_def sublist_code)
qed

lemma str_strip_non_string:
  "type_name v \<noteq> ''str'' \<Longrightarrow> str_strip v = Inl (attribute_error v ''strip'')"
  by (cases v) (simp_all add: str_strip_def)

lemma field_non_string:
  assumes "map_of kvs (lit k) = Some v" "truthy v" "type_name v \<noteq> ''str''"
  shows "field (JObj kvs) k = Inl (attribute_error v ''strip'')"
  using assms by (simp add: field_def dict_get_def py_or_def str_strip_non_string)

lemma normalize_non_string:
  assumes "map_of kvs (lit ''text'') = Some v \<or> map_of kvs (lit ''question'') = Some v"
    and "truthy v" "type_name v \<noteq> ''str''"
  shows "\<exists>x. normalize (JObj kvs) = Inl x"
  using assms(1)
proof
  assume "map_of kvs (lit ''text'') = Some v"
  then show ?thesis
    using assms(2,3) by (simp add: normalize_def field_non_string)
next
  assume "map_of kvs (lit ''question'') = Some v"
  then have "field (JObj kvs) ''question'' = Inl (attribute_error v ''strip'')"
    using assms(2,3) by (rule field_non_string)
  then show ?thesis
    by (cases "field (JObj kvs) ''text''") (simp_all add: normalize_def)
qed

lemma strip_sample_text: "strip sample_text = sample_text"
  by (rule strip_unchanged) (simp_all add: sample_text_def lit_def isspace_def)

lemma strip_sample_question: "strip sample_question = sample_question"
  by (rule strip_unchanged) (simp_all add: sample_question_def lit_def isspace_def)

lemma normalize_sample_form: "normalize sample_form = Inr (sample_text, sample_question)"
  by (simp add: sample_form_def normalize_form_strings strip_sample_text strip_sample_question)

lemma length_sample_text: "length sample_text = 34"
  by (simp add: sample_text_def lit_def)

lemma length_sample_question: "length sample_question = 13"
  by (simp add: sample_question_def lit_def)

lemma ask_try_adapter_raised:
  assumes "normalize data = Inr (t, q)"
    and "20 \<le> length t" "length t \<le> 5000" "3 \<le> length q" "length q \<le> 300"
    and "fst (ask_model e (prompt_of t q) default_max_tokens w) = Inl x"
  shows "ask_try e (Valid_JSON data) w =
     (Inl x, w\<lparr>calls := calls w @ [chat_request (prompt_of t q) default_max_tokens]\<rparr>)"
  using assms(2-)
  by (simp add: ask_try_normalized [OF assms(1)] answer_request_accepted)

lemma answer_of_content:
  "choices resp = c # cs \<Longrightarrow> content (message c) = Some out \<Longrightarrow> answer_of resp = Inr (strip out)"
  by (simp add: answer_of_def)

lemma messages_distinct:
  "distinct [msg_text_empty, msg_question_empty, msg_text_short, msg_question_short,
             msg_text_long, msg_question_long]"
  by (simp add: msg_text_empty_def msg_question_empty_def msg_text_short_def
      msg_question_short_def msg_text_long_def msg_question_long_def
      str_int_TEXT_MAX_LENGTH str_int_QUESTION_MAX_LENGTH lit_def)

lemma answer_request_first_failure:
  assumes "first_failure (spec_checks t q) = Some m"
  shows "answer_request e t q w = (Inr (jsonify ''error'' m 400), w)"
  using assms
  by (simp add: spec_checks_def answer_request_def len_def TEXT_MIN_LENGTH_def
      QUESTION_MIN_LENGTH_def TEXT_MAX_LENGTH_def QUESTION_MAX_LENGTH_def split: if_splits)

lemma no_failure_in_range:
  assumes "first_failure (spec_checks t q) = None"
  shows "20 \<le> length t \<and> length t \<le> 5000 \<and> 3 \<le> length q \<and> length q \<le> 300"
  using assms by (simp add: spec_checks_def split: if_splits)

lemma spec_messages:
  "map snd (spec_checks t q) =
     [lit ''Please provide lecture text.'',
      lit ''Please enter a question.'',
      lit ''Lecture text is too short. Please provide more content.'',
      lit ''Question is too short. Please be more specific.'',
      lit ''Lecture text exceeds maximum length (5000 characters). Please shorten it.'',
      lit ''Question exceeds maximum length (300 characters). Please shorten it.'']"
  by (simp add: spec_checks_def msg_text_empty_def msg_question_empty_def msg_text_short_def
      msg_question_short_def msg_text_long_def msg_question_long_def
      str_int_TEXT_MAX_LENGTH str_int_QUESTION_MAX_LENGTH lit_def)

lemma strip_Short: "strip (lit ''Short'') = lit ''Short''"
  by (simp add: strip_def lit_def isspace_def)

lemma contains_limit_text: "contains (lit ''5000'') msg_text_long"
  unfolding contains_def msg_text_long_def str_int_TEXT_MAX_LENGTH
  by (rule sublist_appendI)

lemma contains_limit_question: "contains (lit ''300'') msg_question_long"
  unfolding contains_def msg_question_long_def str_int_QUESTION_MAX_LENGTH
  by (rule sublist_appendI)

lemma ask_rejected:
  assumes "normalize data = Inr (t, q)"
    and "answer_request e t q w = (Inr (jsonify ''error'' m 400), w)"
  shows "ask e (Valid_JSON data) w = (jsonify ''error'' m 400, w)"
  using assms(2) by (simp add: ask_def ask_try_normalized [OF assms(1)])

lemma answer_request_text_long:
  assumes "5000 < length t" "3 \<le> length q"
  shows "answer_request e t q w = (Inr (jsonify ''error'' msg_text_long 400), w)"
  using assms
  by (auto simp: answer_request_def len_def TEXT_MIN_LENGTH_def QUESTION_MIN_LENGTH_def
      TEXT_MAX_LENGTH_def)

lemma answer_request_question_long:
  assumes "20 \<le> length t" "length t \<le> 5000" "300 < length q"
  shows "answer_request e t q w = (Inr (jsonify ''error'' msg_question_long 400), w)"
  using assms
  by (auto simp: answer_request_def len_def TEXT_MIN_LENGTH_def QUESTION_MIN_LENGTH_def
      TEXT_MAX_LENGTH_def QUESTION_MAX_LENGTH_def)

lemma ask_too_long_400:
  assumes "normalize data = Inr (t, q)" and "5000 < length t \<or> 300 < length q"
  shows "status (fst (ask e (Valid_JSON data) w)) = 400"
proof -
  have "len t > TEXT_MAX_LENGTH \<or> len q > QUESTION_MAX_LENGTH"
    using assms(2) by (simp add: len_def TEXT_MAX_LENGTH_def QUESTION_MAX_LENGTH_def)
  then obtain m where "answer_request e t q w = (Inr (jsonify ''error'' m 400), w)"
    using answer_request_rejected [of t q e w] by blast
  then show ?thesis
    by (simp add: ask_rejected [OF assms(1)] jsonify_def)
qed

lemma not_space_letters: "\<not> isspace 97" "\<not> isspace 113" "\<not> isspace 120" "\<not> isspace 121"
  by (simp_all add: isspace_def)

lemma normalize_form_replicate_left:
  "\<not> isspace c \<Longrightarrow>
   normalize (form (JStr (replicate n c)) (JStr b)) = Inr (replicate n c, strip b)"
  by (simp add: normalize_form_strings strip_replicate)

lemma normalize_form_replicate_right:
  "\<not> isspace c \<Longrightarrow>
   normalize (form (JStr a) (JStr (replicate n c))) = Inr (strip a, replicate n c)"
  by (simp add: normalize_form_strings strip_replicate)

lemma field_cons_same: "field (JObj ((lit k, v) # kvs)) k = str_strip (py_or v (JStr []))"
  by (simp add: field_def dict_get_def)

lemma field_cons_other: "k \<noteq> k' \<Longrightarrow> field (JObj ((lit k, v) # kvs)) k' = field (JObj kvs) k'"
  by (simp add: field_def dict_get_def lit_eq_iff)

lemma field_missing:
  "map_of kvs (lit k) = None \<or> map_of kvs (lit k) = Some JNull \<Longrightarrow> field (JObj kvs) k = Inr []"
  by (auto simp: field_def dict_get_def py_or_def str_strip_def strip_Nil)

lemma str_strip_or_string: "str_strip (py_or (JStr a) (JStr [])) = Inr (strip a)"
  by (simp add: py_or_def str_strip_def strip_Nil)

lemma ask_fields_cong:
  assumes "field d ''text'' = field d' ''text''" "field d ''question'' = field d' ''question''"
  shows "ask e (Valid_JSON d) w = ask e (Valid_JSON d') w"
proof -
  have "normalize d = normalize d'"
    unfolding normalize_def assms ..
  then show ?thesis
    by (simp add: ask_def ask_try_def request_json_def)
qed

lemma ask_field_replaced:
  assumes "k = ''text'' \<or> k = ''question''"
    and "field (JObj kvs) k = str_strip (py_or v (JStr []))"
  shows "ask e (Valid_JSON (JObj kvs)) w = ask e (Valid_JSON (JObj ((lit k, v) # kvs))) w"
  using assms(1)
proof
  assume k: "k = ''text''"
  show ?thesis
    using assms(2) unfolding k
    by (intro ask_fields_cong) (simp_all add: field_cons_same field_cons_other)
next
  assume k: "k = ''question''"
  show ?thesis
    using assms(2) unfolding k
    by (intro ask_fields_cong) (simp_all add: field_cons_same field_cons_other)
qed

lemma ask_field_same_strip:
  assumes "k = ''text'' \<or> k = ''question''" and "strip a = strip b"
  shows "ask e (Valid_JSON (JObj ((lit k, JStr a) # kvs))) w =
         ask e (Valid_JSON (JObj ((lit k, JStr b) # kvs))) w"
  using assms(1)
proof
  assume k: "k = ''text''"
  show ?thesis
    unfolding k
    by (intro ask_fields_cong) (simp_all add: field_cons_same field_cons_other
        str_strip_or_string assms(2))
next
  assume k: "k = ''question''"
  show ?thesis
    unfolding k
    by (intro ask_fields_cong) (simp_all add: field_cons_same field_cons_other
        str_strip_or_string assms(2))
qed

lemma first_failure_lengths:
  assumes "length t = length t'" "length q = length q'"
  shows "first_failure (spec_checks t q) = first_failure (spec_checks t' q')"
proof -
  have "t = [] \<longleftrightarrow> t' = []" "q = [] \<longleftrightarrow> q' = []"
    using assms by (simp_all flip: length_0_conv)
  then show ?thesis
    by (simp add: spec_checks_def assms)
qed

lemma ask_400_iff_failure:
  assumes "normalize d = Inr (t, q)"
  shows "status (fst (ask e (Valid_JSON d) w)) = 400 \<longleftrightarrow> first_failure (spec_checks t q) \<noteq> None"
proof (cases "first_failure (spec_checks t q)")
  case None
  note range = no_failure_in_range [OF None]
  have "ask e (Valid_JSON d) w =
     (case fst (ask_model e (prompt_of t q) default_max_tokens w) of
        Inl x \<Rightarrow>
          (jsonify ''error'' msg_generic 500,
           w\<lparr>calls := calls w @ [chat_request (prompt_of t q) default_max_tokens],
             stdout := stdout w @ [lit ''Error in /ask endpoint: '' @ exc_str x]\<rparr>)
      | Inr a \<Rightarrow>
          (jsonify ''answer'' a 200,
           w\<lparr>calls := calls w @ [chat_request (prompt_of t q) default_max_tokens]\<rparr>))"
    using range by (intro ask_accepted [OF assms]) simp_all
  then show ?thesis
    using None by (simp add: jsonify_def split: sum.splits)
next
  case (Some m)
  then have "answer_request e t q w = (Inr (jsonify ''error'' m 400), w)"
    by (rule answer_request_first_failure)
  then show ?thesis
    using Some by (simp add: ask_rejected [OF assms] jsonify_def)
qed

lemma ask_400_by_lengths:
  assumes "normalize d = Inr (t, q)" "normalize d' = Inr (t', q')"
    and "length t = length t'" "length q = length q'"
    and "status (fst (ask e (Valid_JSON d) w)) = 400"
  shows "ask e' (Valid_JSON d') w' = (fst (ask e (Valid_JSON d) w), w')"
proof -
  obtain m where m: "first_failure (spec_checks t q) = Some m"
    using assms(5) ask_400_iff_failure [OF assms(1), of e w] by auto
  then have m': "first_failure (spec_checks t' q') = Some m"
    using first_failure_lengths [OF assms(3,4)] by simp
  have "ask e (Valid_JSON d) w = (jsonify ''error'' m 400, w)"
    using answer_request_first_failure [OF m] by (simp add: ask_rejected [OF assms(1)])
  moreover have "ask e' (Valid_JSON d') w' = (jsonify ''error'' m 400, w')"
    using answer_request_first_failure [OF m'] by (simp add: ask_rejected [OF assms(2)])
  ultimately show ?thesis
    by simp
qed

lemma utf8_length_replicate: "utf8_length (replicate n c) = n * utf8_bytes c"
  by (induction n) (simp_all add: utf8_length_def)

lemma ask_short_text:
  "fst (ask e (Valid_JSON (form (JStr (replicate 10 233)) (JStr sample_question))) w) =
     jsonify ''error'' msg_text_short 400"
proof -
  have n: "normalize (form (JStr (replicate 10 233)) (JStr sample_question)) =
      Inr (replicate 10 233, sample_question)"
    by (simp add: normalize_form_replicate_left strip_sample_question isspace_def)
  have "answer_request e (replicate 10 233) sample_question w =
      (Inr (jsonify ''error'' msg_text_short 400), w)"
    by (simp add: answer_request_def len_def TEXT_MIN_LENGTH_def sample_question_def lit_def)
  then show ?thesis
    by (simp add: ask_rejected [OF n])
qed

lemma ask_long_multibyte_text:
  "status (fst (ask e (Valid_JSON (form (JStr (replicate 5000 233)) (JStr sample_question))) w))
     \<noteq> 400"
proof -
  have n: "normalize (form (JStr (replicate 5000 233)) (JStr sample_question)) =
      Inr (replicate 5000 233, sample_question)"
    by (simp add: normalize_form_replicate_left strip_sample_question isspace_def)
  have "first_failure (spec_checks (replicate 5000 233) sample_question) = None"
    by (simp add: spec_checks_def length_sample_question)
       (simp add: sample_question_def lit_def)
  then show ?thesis
    by (simp add: ask_400_iff_failure [OF n])
qed

section \<open>The claims\<close>

text \<open>
  C7. One request makes at most one outbound call: after \<open>ask\<close> the list of calls is
  the one before, or the one before with a single request appended. A request answered
  with status 400 leaves the world as it was: no call was made and nothing was printed.
\<close>

theorem at_most_one_call:
  "(calls (snd (ask e b w)) = calls w \<or> (\<exists>rq. calls (snd (ask e b w)) = calls w @ [rq])) \<and>
   (status (fst (ask e b w)) = 400 \<longrightarrow> snd (ask e b w) = w)"
  using ask_try_outcomes [of e b w]
  by (elim disjE exE) (simp_all add: ask_def jsonify_def)

theorem at_most_one_call_witness:
  "status (fst (ask upstream_down (Valid_JSON (form (JStr []) (JStr []))) quiet)) = 400 \<and>
   snd (ask upstream_down (Valid_JSON (form (JStr []) (JStr []))) quiet) = quiet"
proof -
  have "status (fst (ask upstream_down (Valid_JSON (form (JStr []) (JStr []))) quiet)) = 400"
    by (simp add: ask_empty_form jsonify_def)
  then show ?thesis
    using at_most_one_call [of upstream_down "Valid_JSON (form (JStr []) (JStr []))" quiet]
    by simp
qed


text \<open>
  C9. \<open>health\<close> answers status 200 with the body \<open>{"status": "ok"}\<close> for every upstream,
  every framework setting and every world, and leaves the world unchanged.
\<close>

theorem health_ok:
  "health e w = (\<lparr>status = 200, body = JObj [(lit ''status'', JStr (lit ''ok''))]\<rparr>, w)"
  by (simp add: health_def jsonify_def)

text \<open>
  C10. When \<open>text\<close> or \<open>question\<close> is present in the JSON object with a truthy value that
  is not a string (a number, an array, an object, \<open>true\<close>), \<open>strip\<close> raises while the
  fields are normalised: the answer is status 500 with the generic message, not a 400
  validation message, and no outbound call is made.
\<close>

theorem non_string_field_500:
  assumes "map_of kvs (lit ''text'') = Some v \<or> map_of kvs (lit ''question'') = Some v"
    and "truthy v" and "type_name v \<noteq> ''str''"
  shows "fst (ask e (Valid_JSON (JObj kvs)) w) =
           \<lparr>status = 500,
            body = JObj [(lit ''error'', JStr (lit ''An error occurred. Please try again later.''))]\<rparr> \<and>
         calls (snd (ask e (Valid_JSON (JObj kvs)) w)) = calls w"
proof -
  obtain x where "normalize (JObj kvs) = Inl x"
    using normalize_non_string [OF assms] ..
  then have "ask_try e (Valid_JSON (JObj kvs)) w = (Inl x, w)"
    by (rule ask_try_not_normalized)
  then show ?thesis
    by (simp add: ask_raised jsonify_def msg_generic_def)
qed

theorem non_string_field_500_witness:
  "fst (ask upstream_down (Valid_JSON (JObj [(lit ''text'', JStr (lit ''Some lecture text, long enough.'')),
        (lit ''question'', JArr [JInt 1])])) quiet) =
     \<lparr>status = 500,
      body = JObj [(lit ''error'', JStr (lit ''An error occurred. Please try again later.''))]\<rparr> \<and>
   calls (snd (ask upstream_down (Valid_JSON (JObj [(lit ''text'', JStr (lit ''Some lecture text, long enough.'')),
        (lit ''question'', JArr [JInt 1])])) quiet)) = calls quiet"
  by (rule non_string_field_500 [where v = "JArr [JInt 1]"]) (simp_all add: keys_differ)

text \<open>
  C3. Whatever is raised inside the \<open>try\<close> block of \<open>ask\<close> is answered with status 500 and
  exactly the generic body, and is printed on the server side. In particular, when the
  request passes validation and the upstream call raises, or returns something the
  adapter cannot read, the answer is that fixed response; the text of the exception the
  adapter raises (\<open>API Error: ...\<close>) is printed and is not part of the message sent to
  the client.
\<close>

theorem failures_answer_generic_500:
  "(ask_try e b w = (Inl x, w') \<longrightarrow>
      ask e b w =
        (\<lparr>status = 500,
          body = JObj [(lit ''error'', JStr (lit ''An error occurred. Please try again later.''))]\<rparr>,
         w'\<lparr>stdout := stdout w' @ [lit ''Error in /ask endpoint: '' @ exc_str x]\<rparr>)) \<and>
   (normalize data = Inr (t, q) \<and> 20 \<le> length t \<and> length t \<le> 5000 \<and>
    3 \<le> length q \<and> length q \<le> 300 \<and>
    (client e (chat_request (prompt_of t q) 300) = Inl y \<or>
     (\<exists>resp. client e (chat_request (prompt_of t q) 300) = Inr resp \<and> answer_of resp = Inl y)) \<longrightarrow>
      fst (ask e (Valid_JSON data) w) =
        \<lparr>status = 500,
         body = JObj [(lit ''error'', JStr (lit ''An error occurred. Please try again later.''))]\<rparr> \<and>
      stdout (snd (ask e (Valid_JSON data) w)) =
        stdout w @ [lit ''Error in /ask endpoint: '' @ lit ''API Error: '' @ exc_str y] \<and>
      \<not> contains (lit ''API Error: '' @ exc_str y)
          (lit ''An error occurred. Please try again later.''))"
proof (rule conjI; rule impI)
  assume "ask_try e b w = (Inl x, w')"
  then show "ask e b w =
        (\<lparr>status = 500,
          body = JObj [(lit ''error'', JStr (lit ''An error occurred. Please try again later.''))]\<rparr>,
         w'\<lparr>stdout := stdout w' @ [lit ''Error in /ask endpoint: '' @ exc_str x]\<rparr>)"
    by (simp add: ask_raised jsonify_def msg_generic_def)
next
  assume h: "normalize data = Inr (t, q) \<and> 20 \<le> length t \<and> length t \<le> 5000 \<and>
    3 \<le> length q \<and> length q \<le> 300 \<and>
    (client e (chat_request (prompt_of t q) 300) = Inl y \<or>
     (\<exists>resp. client e (chat_request (prompt_of t q) 300) = Inr resp \<and> answer_of resp = Inl y))"
  then have "fst (ask_model e (prompt_of t q) default_max_tokens w) =
      Inl (Exc ''Exception'' (lit ''API Error: '' @ exc_str y))"
    by (auto simp: ask_model_result default_max_tokens_def)
  with h have "ask_try e (Valid_JSON data) w =
     (Inl (Exc ''Exception'' (lit ''API Error: '' @ exc_str y)),
      w\<lparr>calls := calls w @ [chat_request (prompt_of t q) default_max_tokens]\<rparr>)"
    by (simp add: ask_try_adapter_raised)
  then have "ask e (Valid_JSON data) w =
     (jsonify ''error'' msg_generic 500,
      w\<lparr>calls := calls w @ [chat_request (prompt_of t q) default_max_tokens],
        stdout := stdout w @ [lit ''Error in /ask endpoint: '' @ lit ''API Error: '' @ exc_str y]\<rparr>)"
    by (simp add: ask_raised)
  then show "fst (ask e (Valid_JSON data) w) =
        \<lparr>status = 500,
         body = JObj [(lit ''error'', JStr (lit ''An error occurred. Please try again later.''))]\<rparr> \<and>
      stdout (snd (ask e (Valid_JSON data) w)) =
        stdout w @ [lit ''Error in /ask endpoint: '' @ lit ''API Error: '' @ exc_str y] \<and>
      \<not> contains (lit ''API Error: '' @ exc_str y)
          (lit ''An error occurred. Please try again later.'')"
    using api_error_not_in_generic [of "exc_str y"]
    by (simp add: jsonify_def msg_generic_def)
qed

theorem failures_answer_generic_500_witness:
  "ask_try upstream_down (Valid_JSON sample_form) quiet =
     (Inl (Exc ''Exception'' (lit ''API Error: '' @ lit ''Connection error.'')),
      quiet\<lparr>calls := [chat_request (prompt_of sample_text sample_question) 300]\<rparr>) \<and>
   client upstream_down (chat_request (prompt_of sample_text sample_question) 300) =
     Inl (Exc ''APIConnectionError'' (lit ''Connection error.'')) \<and>
   ask upstream_down (Valid_JSON sample_form) quiet =
     (\<lparr>status = 500,
       body = JObj [(lit ''error'', JStr (lit ''An error occurred. Please try again later.''))]\<rparr>,
      quiet\<lparr>calls := [chat_request (prompt_of sample_text sample_question) 300],
        stdout := [lit ''Error in /ask endpoint: '' @ lit ''API Error: '' @ lit ''Connection error.'']\<rparr>) \<and>
   \<not> contains (lit ''API Error: '' @ lit ''Connection error.'')
       (lit ''An error occurred. Please try again later.'')"
proof -
  have up: "client upstream_down (chat_request (prompt_of sample_text sample_question) 300) =
      Inl (Exc ''APIConnectionError'' (lit ''Connection error.''))"
    by (simp add: upstream_down_def)
  then have "fst (ask_model upstream_down (prompt_of sample_text sample_question)
        default_max_tokens quiet) =
      Inl (Exc ''Exception'' (lit ''API Error: '' @ lit ''Connection error.''))"
    by (simp add: ask_model_result default_max_tokens_def)
  then have raised: "ask_try upstream_down (Valid_JSON sample_form) quiet =
     (Inl (Exc ''Exception'' (lit ''API Error: '' @ lit ''Connection error.'')),
      quiet\<lparr>calls := [chat_request (prompt_of sample_text sample_question) 300]\<rparr>)"
    using ask_try_adapter_raised [OF normalize_sample_form, of upstream_down quiet]
    by (simp add: length_sample_text length_sample_question default_max_tokens_def quiet_def)
  show ?thesis
    using up raised normalize_sample_form
      failures_answer_generic_500 [where e = upstream_down and b = "Valid_JSON sample_form"
        and w = quiet and x = "Exc ''Exception'' (lit ''API Error: '' @ lit ''Connection error.'')"
        and w' = "quiet\<lparr>calls := [chat_request (prompt_of sample_text sample_question) 300]\<rparr>"
        and data = sample_form and t = sample_text and q = sample_question
        and y = "Exc ''APIConnectionError'' (lit ''Connection error.'')"]
    by (simp add: length_sample_text length_sample_question quiet_def)
qed

lemma field_string:
  "map_of kvs (lit k) = Some (JStr a) \<Longrightarrow> field (JObj kvs) k = Inr (strip a)"
  by (simp add: field_def dict_get_def py_or_def str_strip_def strip_Nil)

lemma strip_padded:
  assumes "\<forall>c\<in>set p. isspace c" and "\<forall>c\<in>set s. isspace c"
    and "t \<noteq> []" and "\<not> isspace (hd t)" and "\<not> isspace (last t)"
  shows "strip (p @ t @ s) = t"
  using strip_pad [OF assms(1,2), of t] strip_unchanged [OF assms(3-5)] by simp

lemma normalize_padded:
  assumes "map_of kvs (lit ''text'') = Some (JStr (p @ t @ s))"
    and "map_of kvs (lit ''question'') = Some (JStr (p' @ q @ s'))"
    and "\<forall>c\<in>set (p @ s @ p' @ s'). isspace c"
    and "t \<noteq> []" and "\<not> isspace (hd t)" and "\<not> isspace (last t)"
    and "q \<noteq> []" and "\<not> isspace (hd q)" and "\<not> isspace (last q)"
  shows "normalize (JObj kvs) = Inr (t, q)"
proof -
  have "strip (p @ t @ s) = t"
    using assms(3-6) by (intro strip_padded) simp_all
  moreover have "strip (p' @ q @ s') = q"
    using assms(3,7-9) by (intro strip_padded) simp_all
  ultimately show ?thesis
    by (simp add: normalize_def field_string [OF assms(1)] field_string [OF assms(2)])
qed

text \<open>
  C6. For a request that passes validation the handler makes exactly one outbound call,
  and its arguments are a function of the trimmed text and question alone: the model
  \<open>gpt-4o-mini\<close>, the system instruction, the user prompt built from the fixed
  template, 300 output tokens at most, temperature 0.2. What the template embeds is the
  field as sent without the whitespace around it: with \<open>text\<close> sent as \<open>p @ t @ s\<close> and
  \<open>question\<close> as \<open>p' @ q @ s'\<close>, where \<open>p\<close>, \<open>s\<close>, \<open>p'\<close>, \<open>s'\<close> are whitespace and \<open>t\<close>, \<open>q\<close>
  begin and end with other characters, the prompt holds \<open>t\<close> and \<open>q\<close>.
\<close>

theorem outbound_request:
  "(map_of kvs (lit ''text'') = Some (JStr (p @ t @ s)) \<and>
    map_of kvs (lit ''question'') = Some (JStr (p' @ q @ s')) \<and>
    (\<forall>c\<in>set (p @ s @ p' @ s'). isspace c) \<and>
    \<not> isspace (hd t) \<and> \<not> isspace (last t) \<and> \<not> isspace (hd q) \<and> \<not> isspace (last q) \<and>
    20 \<le> length t \<and> length t \<le> 5000 \<and> 3 \<le> length q \<and> length q \<le> 300 \<longrightarrow>
      calls (snd (ask e (Valid_JSON (JObj kvs)) w)) =
        calls w @
        [\<lparr>model = lit ''gpt-4o-mini'',
          messages =
            [(lit ''system'', SYSTEM_PROMPT),
             (lit ''user'',
              lit ''Based on the following course material, please answer the question.'' @
              [10, 10] @ lit ''Course Material:'' @ [10] @ t @ [10, 10] @
              lit ''Question: '' @ q @ [10, 10] @ lit ''Provide a clear and concise answer.'')],
          max_tokens = 300,
          temperature = 2 / 10\<rparr>]) \<and>
   (normalize data = Inr (t, q) \<and>
    20 \<le> length t \<and> length t \<le> 5000 \<and> 3 \<le> length q \<and> length q \<le> 300 \<longrightarrow>
      calls (snd (ask e (Valid_JSON data) w)) =
        calls w @
        [\<lparr>model = lit ''gpt-4o-mini'',
          messages =
            [(lit ''system'', SYSTEM_PROMPT),
             (lit ''user'',
              lit ''Based on the following course material, please answer the question.'' @
              [10, 10] @ lit ''Course Material:'' @ [10] @ t @ [10, 10] @
              lit ''Question: '' @ q @ [10, 10] @ lit ''Provide a clear and concise answer.'')],
          max_tokens = 300,
          temperature = 2 / 10\<rparr>])"
proof -
  have sent: "calls (snd (ask e (Valid_JSON d) w)) =
        calls w @
        [\<lparr>model = lit ''gpt-4o-mini'',
          messages =
            [(lit ''system'', SYSTEM_PROMPT),
             (lit ''user'',
              lit ''Based on the following course material, please answer the question.'' @
              [10, 10] @ lit ''Course Material:'' @ [10] @ t @ [10, 10] @
              lit ''Question: '' @ q @ [10, 10] @ lit ''Provide a clear and concise answer.'')],
          max_tokens = 300,
          temperature = 2 / 10\<rparr>]"
    if n: "normalize d = Inr (t, q)"
      and r: "20 \<le> length t" "length t \<le> 5000" "3 \<le> length q" "length q \<le> 300" for d
    by (simp add: ask_accepted [OF n r] chat_request_def prompt_of_def default_max_tokens_def
        split: sum.splits)
  have "normalize (JObj kvs) = Inr (t, q)"
    if "map_of kvs (lit ''text'') = Some (JStr (p @ t @ s))"
      and "map_of kvs (lit ''question'') = Some (JStr (p' @ q @ s'))"
      and "\<forall>c\<in>set (p @ s @ p' @ s'). isspace c"
      and "\<not> isspace (hd t)" "\<not> isspace (last t)" "\<not> isspace (hd q)" "\<not> isspace (last q)"
      and "20 \<le> length t" "3 \<le> length q"
    using that by (intro normalize_padded [of kvs p t s p' q s']) auto
  then show ?thesis
    using sent by blast
qed

theorem outbound_request_witness:
  "calls (snd (ask upstream_down
      (Valid_JSON (JObj [(lit ''text'', JStr (lit ''  '' @ sample_text @ [10])),
                         (lit ''question'', JStr ([9] @ sample_question @ lit '' ''))]))
      quiet)) =
     [\<lparr>model = lit ''gpt-4o-mini'',
       messages =
         [(lit ''system'', SYSTEM_PROMPT),
          (lit ''user'',
           lit ''Based on the following course material, please answer the question.'' @
           [10, 10] @ lit ''Course Material:'' @ [10] @ lit ''Valid lecture content for testing.'' @
           [10, 10] @ lit ''Question: '' @ lit ''What is this?'' @ [10, 10] @
           lit ''Provide a clear and concise answer.'')],
       max_tokens = 300,
       temperature = 2 / 10\<rparr>] \<and>
   normalize (JObj [(lit ''text'', JStr (lit ''  '' @ sample_text @ [10])),
                    (lit ''question'', JStr ([9] @ sample_question @ lit '' ''))]) =
     Inr (lit ''Valid lecture content for testing.'', lit ''What is this?'')"
proof -
  have spaces: "\<forall>c\<in>set (lit ''  '' @ [10] @ [9] @ lit '' ''). isspace c"
    by (simp add: lit_def isspace_def)
  have ends: "\<not> isspace (hd sample_text)" "\<not> isspace (last sample_text)"
    "\<not> isspace (hd sample_question)" "\<not> isspace (last sample_question)"
    by (simp_all add: sample_text_def sample_question_def lit_def isspace_def)
  have "strip (lit ''  '' @ sample_text @ [10]) = sample_text"
    by (simp add: strip_def sample_text_def lit_def isspace_def)
  moreover have "strip ([9] @ sample_question @ lit '' '') = sample_question"
    by (simp add: strip_def sample_question_def lit_def isspace_def)
  ultimately have n: "normalize (JObj [(lit ''text'', JStr (lit ''  '' @ sample_text @ [10])),
                    (lit ''question'', JStr ([9] @ sample_question @ lit '' ''))]) =
     Inr (sample_text, sample_question)"
    by (simp add: normalize_def field_string keys_differ)
  show ?thesis
    using spaces ends n
      outbound_request [where kvs = "[(lit ''text'', JStr (lit ''  '' @ sample_text @ [10])),
                    (lit ''question'', JStr ([9] @ sample_question @ lit '' ''))]"
        and p = "lit ''  ''" and t = sample_text and s = "[10]"
        and p' = "[9]" and q = sample_question and s' = "lit '' ''"
        and e = upstream_down and w = quiet
        and data = "JObj [(lit ''text'', JStr (lit ''  '' @ sample_text @ [10])),
                    (lit ''question'', JStr ([9] @ sample_question @ lit '' ''))]"]
    by (simp add: length_sample_text length_sample_question quiet_def keys_differ)
       (simp add: sample_text_def sample_question_def)
qed

text \<open>
  C5, as the code has it. For a request that passes validation, when the upstream call
  returns a completion whose first choice carries text, the answer is status 200 with
  the body \<open>{"answer": s}\<close>, \<open>s\<close> being that text stripped. \<open>s\<close> is non-empty exactly when
  the text has a character that is not whitespace: the handler does not check it.
\<close>

theorem success_answer:
  assumes "normalize data = Inr (t, q)"
    and "20 \<le> length t" and "length t \<le> 5000" and "3 \<le> length q" and "length q \<le> 300"
    and "client e (chat_request (prompt_of t q) 300) = Inr resp"
    and "choices resp = c # cs" and "content (message c) = Some out"
  shows "fst (ask e (Valid_JSON data) w) =
           \<lparr>status = 200, body = JObj [(lit ''answer'', JStr (strip out))]\<rparr> \<and>
         (strip out \<noteq> [] \<longleftrightarrow> (\<exists>x\<in>set out. \<not> isspace x))"
proof -
  have "fst (ask_model e (prompt_of t q) default_max_tokens w) = Inr (strip out)"
    using assms(6) answer_of_content [OF assms(7,8)]
    by (simp add: ask_model_result default_max_tokens_def)
  then have "fst (ask e (Valid_JSON data) w) = jsonify ''answer'' (strip out) 200"
    by (simp add: ask_accepted [OF assms(1-5)])
  then show ?thesis
    by (simp add: jsonify_def strip_nonempty_iff)
qed

theorem success_answer_witness:
  "fst (ask (upstream_says (Some (lit ''  This is a mocked answer. ''))) (Valid_JSON sample_form)
        quiet) =
     \<lparr>status = 200, body = JObj [(lit ''answer'', JStr (lit ''This is a mocked answer.''))]\<rparr>"
proof -
  have "strip (lit ''  This is a mocked answer. '') = lit ''This is a mocked answer.''"
    by (simp add: strip_def lit_def isspace_def)
  then show ?thesis
    using success_answer [OF normalize_sample_form,
        where e = "upstream_says (Some (lit ''  This is a mocked answer. ''))"
          and resp = "Completion [Choice (Message (Some (lit ''  This is a mocked answer. '')))]"
          and c = "Choice (Message (Some (lit ''  This is a mocked answer. '')))" and cs = "[]"
          and out = "lit ''  This is a mocked answer. ''" and w = quiet]
    by (simp add: length_sample_text length_sample_question upstream_says_def)
qed

theorem nonempty_answer_counterexample:
  "normalize sample_form = Inr (sample_text, sample_question) \<and>
   20 \<le> length sample_text \<and> length sample_text \<le> 5000 \<and>
   3 \<le> length sample_question \<and> length sample_question \<le> 300 \<and>
   client (upstream_says (Some [10])) (chat_request (prompt_of sample_text sample_question) 300) =
     Inr (Completion [Choice (Message (Some [10]))]) \<and>
   fst (ask (upstream_says (Some [10])) (Valid_JSON sample_form) quiet) =
     \<lparr>status = 200, body = JObj [(lit ''answer'', JStr [])]\<rparr>"
proof -
  have "strip [10] = []"
    by (simp add: strip_def isspace_def)
  moreover have "fst (ask_model (upstream_says (Some [10])) (prompt_of sample_text sample_question)
      default_max_tokens quiet) = Inr (strip [10])"
    by (simp add: ask_model_result upstream_says_def answer_of_def)
  ultimately have "fst (ask (upstream_says (Some [10])) (Valid_JSON sample_form) quiet) =
      jsonify ''answer'' [] 200"
    by (simp add: ask_accepted [OF normalize_sample_form] length_sample_text
        length_sample_question)
  then show ?thesis
    by (simp add: normalize_sample_form length_sample_text length_sample_question
        upstream_says_def jsonify_def)
qed

text \<open>
  C1. Once both fields are normalised, the handler answers as the ordered list of six
  checks says: when some check fails, the response is status 400 with the message of
  the first failing check and the world is untouched (no call to the adapter, nothing
  printed); when none fails, the response is not a 400 and the adapter is called once.
  The six messages are the texts below, pairwise distinct.
\<close>

theorem validation_order:
  assumes "normalize data = Inr (t, q)"
  shows "(first_failure (spec_checks t q) = Some m \<longrightarrow>
            ask e (Valid_JSON data) w =
              (\<lparr>status = 400, body = JObj [(lit ''error'', JStr m)]\<rparr>, w)) \<and>
         (first_failure (spec_checks t q) = None \<longrightarrow>
            status (fst (ask e (Valid_JSON data) w)) \<noteq> 400 \<and>
            calls (snd (ask e (Valid_JSON data) w)) =
              calls w @ [chat_request (prompt_of t q) 300]) \<and>
         map snd (spec_checks t q) =
           [lit ''Please provide lecture text.'',
            lit ''Please enter a question.'',
            lit ''Lecture text is too short. Please provide more content.'',
            lit ''Question is too short. Please be more specific.'',
            lit ''Lecture text exceeds maximum length (5000 characters). Please shorten it.'',
            lit ''Question exceeds maximum length (300 characters). Please shorten it.''] \<and>
         distinct (map snd (spec_checks t q))"
proof (intro conjI impI)
  assume "first_failure (spec_checks t q) = Some m"
  then have "answer_request e t q w = (Inr (jsonify ''error'' m 400), w)"
    by (rule answer_request_first_failure)
  then have "ask_try e (Valid_JSON data) w = (Inr (jsonify ''error'' m 400), w)"
    by (simp add: ask_try_normalized [OF assms])
  then show "ask e (Valid_JSON data) w =
      (\<lparr>status = 400, body = JObj [(lit ''error'', JStr m)]\<rparr>, w)"
    by (simp add: ask_returned jsonify_def)
next
  assume none: "first_failure (spec_checks t q) = None"
  note range = no_failure_in_range [OF none]
  have accepted: "ask e (Valid_JSON data) w =
     (case fst (ask_model e (prompt_of t q) default_max_tokens w) of
        Inl x \<Rightarrow>
          (jsonify ''error'' msg_generic 500,
           w\<lparr>calls := calls w @ [chat_request (prompt_of t q) default_max_tokens],
             stdout := stdout w @ [lit ''Error in /ask endpoint: '' @ exc_str x]\<rparr>)
      | Inr a \<Rightarrow>
          (jsonify ''answer'' a 200,
           w\<lparr>calls := calls w @ [chat_request (prompt_of t q) default_max_tokens]\<rparr>))"
    using range by (intro ask_accepted [OF assms]) simp_all
  show "status (fst (ask e (Valid_JSON data) w)) \<noteq> 400"
    by (simp add: accepted jsonify_def split: sum.splits)
  show "calls (snd (ask e (Valid_JSON data) w)) = calls w @ [chat_request (prompt_of t q) 300]"
    by (simp add: accepted default_max_tokens_def split: sum.splits)
next
  show "map snd (spec_checks t q) =
           [lit ''Please provide lecture text.'',
            lit ''Please enter a question.'',
            lit ''Lecture text is too short. Please provide more content.'',
            lit ''Question is too short. Please be more specific.'',
            lit ''Lecture text exceeds maximum length (5000 characters). Please shorten it.'',
            lit ''Question exceeds maximum length (300 characters). Please shorten it.'']"
    by (rule spec_messages)
next
  show "distinct (map snd (spec_checks t q))"
    using messages_distinct by (simp add: spec_checks_def)
qed

theorem validation_order_witness:
  "ask upstream_down (Valid_JSON (form (JStr (lit ''Short'')) (JStr []))) quiet =
     (\<lparr>status = 400, body = JObj [(lit ''error'', JStr (lit ''Please enter a question.''))]\<rparr>,
      quiet) \<and>
   status (fst (ask upstream_down (Valid_JSON sample_form) quiet)) \<noteq> 400 \<and>
   calls (snd (ask upstream_down (Valid_JSON sample_form) quiet)) =
     [chat_request (prompt_of sample_text sample_question) 300]"
proof -
  have n: "normalize (form (JStr (lit ''Short'')) (JStr [])) = Inr (lit ''Short'', [])"
    by (simp add: normalize_form_strings strip_Short strip_Nil)
  have f: "first_failure (spec_checks (lit ''Short'') []) = Some (lit ''Please enter a question.'')"
    by (simp add: spec_checks_def lit_def msg_question_empty_def)
  have g: "first_failure (spec_checks sample_text sample_question) = None"
    by (simp add: spec_checks_def length_sample_text length_sample_question)
       (simp add: sample_text_def sample_question_def lit_def)
  show ?thesis
    using f g
      validation_order [OF n, of "lit ''Please enter a question.''" upstream_down quiet]
      validation_order [OF normalize_sample_form, of _ upstream_down quiet]
    by (simp add: quiet_def)
qed

text \<open>
  C2, as the code has it. With trimmed text of exactly 5000 characters and trimmed
  question of exactly 300 no check fails: the response is not a 400 and the adapter is
  called. A trimmed text of 5001 characters, or a trimmed question of 301, is always
  answered with status 400. The message is the one naming the limit 5000 when the
  question has at least 3 characters, and the one naming the limit 300 when the text has
  20 to 5000 characters; otherwise an earlier check answers with its own message.
\<close>

theorem length_bounds:
  assumes "normalize data = Inr (t, q)"
  shows "(length t = 5000 \<and> length q = 300 \<longrightarrow>
            status (fst (ask e (Valid_JSON data) w)) \<noteq> 400 \<and>
            calls (snd (ask e (Valid_JSON data) w)) =
              calls w @ [chat_request (prompt_of t q) 300]) \<and>
         (length t = 5001 \<or> length q = 301 \<longrightarrow>
            status (fst (ask e (Valid_JSON data) w)) = 400) \<and>
         (length t = 5001 \<and> 3 \<le> length q \<longrightarrow>
            ask e (Valid_JSON data) w =
              (\<lparr>status = 400, body = JObj [(lit ''error'', JStr msg_text_long)]\<rparr>, w) \<and>
            contains (lit ''5000'') msg_text_long) \<and>
         (length q = 301 \<and> 20 \<le> length t \<and> length t \<le> 5000 \<longrightarrow>
            ask e (Valid_JSON data) w =
              (\<lparr>status = 400, body = JObj [(lit ''error'', JStr msg_question_long)]\<rparr>, w) \<and>
            contains (lit ''300'') msg_question_long)"
proof (intro conjI impI)
  assume h: "length t = 5000 \<and> length q = 300"
  have accepted: "ask e (Valid_JSON data) w =
     (case fst (ask_model e (prompt_of t q) default_max_tokens w) of
        Inl x \<Rightarrow>
          (jsonify ''error'' msg_generic 500,
           w\<lparr>calls := calls w @ [chat_request (prompt_of t q) default_max_tokens],
             stdout := stdout w @ [lit ''Error in /ask endpoint: '' @ exc_str x]\<rparr>)
      | Inr a \<Rightarrow>
          (jsonify ''answer'' a 200,
           w\<lparr>calls := calls w @ [chat_request (prompt_of t q) default_max_tokens]\<rparr>))"
    using h by (intro ask_accepted [OF assms]) simp_all
  show "status (fst (ask e (Valid_JSON data) w)) \<noteq> 400"
    by (simp add: accepted jsonify_def split: sum.splits)
  show "calls (snd (ask e (Valid_JSON data) w)) = calls w @ [chat_request (prompt_of t q) 300]"
    by (simp add: accepted default_max_tokens_def split: sum.splits)
next
  assume "length t = 5001 \<or> length q = 301"
  then have "5000 < length t \<or> 300 < length q"
    by auto
  then show "status (fst (ask e (Valid_JSON data) w)) = 400"
    by (rule ask_too_long_400 [OF assms])
next
  assume "length t = 5001 \<and> 3 \<le> length q"
  then have "answer_request e t q w = (Inr (jsonify ''error'' msg_text_long 400), w)"
    by (intro answer_request_text_long) simp_all
  then show "ask e (Valid_JSON data) w =
      (\<lparr>status = 400, body = JObj [(lit ''error'', JStr msg_text_long)]\<rparr>, w)"
    by (simp add: ask_rejected [OF assms] jsonify_def)
next
  assume "length q = 301 \<and> 20 \<le> length t \<and> length t \<le> 5000"
  then have "answer_request e t q w = (Inr (jsonify ''error'' msg_question_long 400), w)"
    by (intro answer_request_question_long) simp_all
  then show "ask e (Valid_JSON data) w =
      (\<lparr>status = 400, body = JObj [(lit ''error'', JStr msg_question_long)]\<rparr>, w)"
    by (simp add: ask_rejected [OF assms] jsonify_def)
next
  show "contains (lit ''5000'') msg_text_long"
    by (rule contains_limit_text)
next
  show "contains (lit ''300'') msg_question_long"
    by (rule contains_limit_question)
qed

theorem length_bounds_witness:
  "status (fst (ask upstream_down
      (Valid_JSON (form (JStr (replicate 5000 120)) (JStr (replicate 300 121)))) quiet)) \<noteq> 400 \<and>
   ask upstream_down (Valid_JSON (form (JStr (replicate 5001 97)) (JStr sample_question))) quiet =
     (\<lparr>status = 400, body = JObj [(lit ''error'', JStr msg_text_long)]\<rparr>, quiet) \<and>
   ask upstream_down (Valid_JSON (form (JStr sample_text) (JStr (replicate 301 113)))) quiet =
     (\<lparr>status = 400, body = JObj [(lit ''error'', JStr msg_question_long)]\<rparr>, quiet)"
proof -
  have a: "normalize (form (JStr (replicate 5000 120)) (JStr (replicate 300 121))) =
      Inr (replicate 5000 120, replicate 300 121)"
    by (simp add: normalize_form_replicate_left strip_replicate not_space_letters)
  have b: "normalize (form (JStr (replicate 5001 97)) (JStr sample_question)) =
      Inr (replicate 5001 97, sample_question)"
    by (simp add: normalize_form_replicate_left strip_sample_question not_space_letters)
  have c: "normalize (form (JStr sample_text) (JStr (replicate 301 113))) =
      Inr (sample_text, replicate 301 113)"
    by (simp add: normalize_form_replicate_right strip_sample_text not_space_letters)
  show ?thesis
    using length_bounds [OF a, of upstream_down quiet]
      length_bounds [OF b, of upstream_down quiet]
      length_bounds [OF c, of upstream_down quiet]
    by (simp add: length_sample_text length_sample_question)
qed

theorem limit_message_counterexample:
  "normalize (form (JStr (replicate 5001 97)) (JStr [])) = Inr (replicate 5001 97, []) \<and>
   length (replicate 5001 (97::nat)) = 5001 \<and>
   fst (ask upstream_down (Valid_JSON (form (JStr (replicate 5001 97)) (JStr []))) quiet) =
     \<lparr>status = 400, body = JObj [(lit ''error'', JStr (lit ''Please enter a question.''))]\<rparr> \<and>
   \<not> contains (lit ''5000'') (lit ''Please enter a question.'')"
proof -
  have n: "normalize (form (JStr (replicate 5001 97)) (JStr [])) = Inr (replicate 5001 97, [])"
    by (simp add: normalize_form_replicate_left strip_Nil not_space_letters)
  have "answer_request upstream_down (replicate 5001 97) [] quiet =
      (Inr (jsonify ''error'' msg_question_empty 400), quiet)"
    by (simp add: answer_request_def)
  then have "fst (ask upstream_down (Valid_JSON (form (JStr (replicate 5001 97)) (JStr []))) quiet) =
      jsonify ''error'' msg_question_empty 400"
    by (simp add: ask_rejected [OF n])
  moreover have "\<not> contains (lit ''5000'') (lit ''Please enter a question.'')"
    by (simp add: contains_def lit_def sublist_code)
  ultimately show ?thesis
    using n by (simp add: jsonify_def msg_question_empty_def)
qed

text \<open>
  C4. A field that is absent or \<open>null\<close> is read as the empty string, and the handler
  answers as if the field were \<open>""\<close>. A string field is stripped before anything is
  checked, so whitespace around it changes nothing. The checks look only at the numbers
  of code points of the two stripped values: two requests with the same two lengths are
  rejected alike. Code points are counted, not bytes: 5000 two-byte characters (10000
  bytes of UTF-8) pass the upper bound, and 10 of them (20 bytes) are too short.
\<close>

theorem normalization_and_lengths:
  "((k = ''text'' \<or> k = ''question'') \<and>
    (map_of kvs (lit k) = None \<or> map_of kvs (lit k) = Some JNull) \<longrightarrow>
      field (JObj kvs) k = Inr [] \<and>
      ask e (Valid_JSON (JObj kvs)) w =
        ask e (Valid_JSON (JObj ((lit k, JStr []) # kvs))) w) \<and>
   ((k = ''text'' \<or> k = ''question'') \<and> (\<forall>c\<in>set p. isspace c) \<and> (\<forall>c\<in>set s. isspace c) \<longrightarrow>
      field (JObj ((lit k, JStr (p @ a @ s)) # kvs)) k = Inr (strip a) \<and>
      ask e (Valid_JSON (JObj ((lit k, JStr (p @ a @ s)) # kvs))) w =
        ask e (Valid_JSON (JObj ((lit k, JStr a) # kvs))) w) \<and>
   (normalize d = Inr (t, q) \<and> normalize d' = Inr (t', q') \<and>
    length t = length t' \<and> length q = length q' \<and>
    status (fst (ask e (Valid_JSON d) w)) = 400 \<longrightarrow>
      fst (ask e (Valid_JSON d') w) = fst (ask e (Valid_JSON d) w)) \<and>
   normalize (form (JStr a) (JStr b)) = Inr (strip a, strip b) \<and>
   utf8_length (replicate 5000 233) = 10000 \<and>
   status (fst (ask e (Valid_JSON (form (JStr (replicate 5000 233)) (JStr sample_question))) w))
     \<noteq> 400 \<and>
   utf8_length (replicate 10 233) = 20 \<and>
   fst (ask e (Valid_JSON (form (JStr (replicate 10 233)) (JStr sample_question))) w) =
     \<lparr>status = 400,
      body = JObj [(lit ''error'',
                    JStr (lit ''Lecture text is too short. Please provide more content.''))]\<rparr>"
proof -
  have absent: "field (JObj kvs) k = Inr [] \<and>
      ask e (Valid_JSON (JObj kvs)) w = ask e (Valid_JSON (JObj ((lit k, JStr []) # kvs))) w"
    if "(k = ''text'' \<or> k = ''question'') \<and>
        (map_of kvs (lit k) = None \<or> map_of kvs (lit k) = Some JNull)"
  proof -
    have "field (JObj kvs) k = Inr []"
      using that by (intro field_missing) simp
    moreover from this have "field (JObj kvs) k = str_strip (py_or (JStr []) (JStr []))"
      by (simp add: str_strip_or_string strip_Nil)
    ultimately show ?thesis
      using that ask_field_replaced [of k kvs "JStr []" e w] by simp
  qed
  have padded: "field (JObj ((lit k, JStr (p @ a @ s)) # kvs)) k = Inr (strip a) \<and>
      ask e (Valid_JSON (JObj ((lit k, JStr (p @ a @ s)) # kvs))) w =
        ask e (Valid_JSON (JObj ((lit k, JStr a) # kvs))) w"
    if "(k = ''text'' \<or> k = ''question'') \<and> (\<forall>c\<in>set p. isspace c) \<and> (\<forall>c\<in>set s. isspace c)"
  proof -
    have "strip (p @ a @ s) = strip a"
      using that by (intro strip_pad) simp_all
    then show ?thesis
      using that ask_field_same_strip [of k "p @ a @ s" a e kvs w]
      by (simp add: field_cons_same str_strip_or_string)
  qed
  have lengths: "fst (ask e (Valid_JSON d') w) = fst (ask e (Valid_JSON d) w)"
    if "normalize d = Inr (t, q) \<and> normalize d' = Inr (t', q') \<and>
        length t = length t' \<and> length q = length q' \<and>
        status (fst (ask e (Valid_JSON d) w)) = 400"
    using that ask_400_by_lengths [of d t q d' t' q' e w e w] by simp
  have bytes: "utf8_length (replicate 5000 233) = 10000" "utf8_length (replicate 10 233) = 20"
    by (simp_all add: utf8_length_replicate utf8_bytes_def)
  show ?thesis
    using absent padded lengths bytes ask_long_multibyte_text [of e w] ask_short_text [of e w]
    by (simp add: normalize_form_strings jsonify_def msg_text_short_def)
qed

theorem normalization_and_lengths_witness:
  "field (JObj [(lit ''question'', JStr sample_question)]) ''text'' = Inr [] \<and>
   ask upstream_down (Valid_JSON (JObj [(lit ''question'', JStr sample_question)])) quiet =
     ask upstream_down
       (Valid_JSON (JObj [(lit ''text'', JStr []), (lit ''question'', JStr sample_question)]))
       quiet \<and>
   field (JObj [(lit ''question'', JStr (lit ''  '' @ lit ''hi'' @ lit ''  '')),
                (lit ''text'', JStr sample_text)]) ''question'' = Inr (lit ''hi'') \<and>
   ask upstream_down
     (Valid_JSON (JObj [(lit ''question'', JStr (lit ''  '' @ lit ''hi'' @ lit ''  '')),
                        (lit ''text'', JStr sample_text)])) quiet =
     ask upstream_down
       (Valid_JSON (JObj [(lit ''question'', JStr (lit ''hi'')), (lit ''text'', JStr sample_text)]))
       quiet \<and>
   fst (ask upstream_down (Valid_JSON (form (JStr (lit '' Tiny! '')) (JStr sample_question))) quiet) =
     fst (ask upstream_down (Valid_JSON (form (JStr (lit ''Short'')) (JStr sample_question))) quiet)"
proof -
  have spaces: "\<forall>c\<in>set (lit ''  ''). isspace c"
    by (simp add: lit_def isspace_def)
  have hi: "strip (lit ''hi'') = lit ''hi''"
    by (simp add: strip_def lit_def isspace_def)
  have short: "normalize (form (JStr (lit ''Short'')) (JStr sample_question)) =
      Inr (lit ''Short'', sample_question)"
    by (simp add: normalize_form_strings strip_Short strip_sample_question)
  have "strip (lit '' Tiny! '') = lit ''Tiny!''"
    by (simp add: strip_def lit_def isspace_def)
  then have tiny: "normalize (form (JStr (lit '' Tiny! '')) (JStr sample_question)) =
      Inr (lit ''Tiny!'', sample_question)"
    by (simp add: normalize_form_strings strip_sample_question)
  have "answer_request upstream_down (lit ''Short'') sample_question quiet =
      (Inr (jsonify ''error'' msg_text_short 400), quiet)"
    by (simp add: answer_request_def len_def TEXT_MIN_LENGTH_def sample_question_def lit_def)
  then have rejected: "status (fst (ask upstream_down
      (Valid_JSON (form (JStr (lit ''Short'')) (JStr sample_question))) quiet)) = 400"
    by (simp add: ask_rejected [OF short] jsonify_def)
  have same: "length (lit ''Short'') = length (lit ''Tiny!'')"
    by (simp add: lit_def)
  show ?thesis
    using spaces hi short tiny rejected same
      normalization_and_lengths [where k = "''text''"
        and kvs = "[(lit ''question'', JStr sample_question)]" and e = upstream_down
        and w = quiet and p = "[]" and s = "[]" and a = "[]" and b = "[]"
        and d = JNull and d' = JNull]
      normalization_and_lengths [where k = "''question''"
        and kvs = "[(lit ''text'', JStr sample_text)]" and e = upstream_down
        and w = quiet and p = "lit ''  ''" and s = "lit ''  ''" and a = "lit ''hi''" and b = "[]"
        and d = "form (JStr (lit ''Short'')) (JStr sample_question)" and t = "lit ''Short''"
        and q = sample_question
        and d' = "form (JStr (lit '' Tiny! '')) (JStr sample_question)" and t' = "lit ''Tiny!''"
        and q' = sample_question]
    by (simp add: keys_differ)
qed

end
